theory Spec2Isabelle
  imports Main "HOL-Library.Word"
begin

section \<open>Errors, bytes and protocol constants\<close>

text \<open>
  The exceptions the modelled code can raise. \<open>BufferReadError\<close>, \<open>BufferWriteError\<close> and
  \<open>ValueError\<close> come from the transport library's \<open>Buffer\<close>, \<open>TypeError\<close> from \<open>len\<close> of a
  value that is no byte string, the Unicode errors from \<open>str.encode\<close> and \<open>bytes.decode\<close>.
\<close>

datatype error =
    BufferReadError
  | BufferWriteError
  | ValueError
  | TypeError
  | UnicodeEncodeError
  | UnicodeDecodeError
  | AssertionError
  | RuntimeError string
  | TimeoutError
  | ProtocolViolation

type_synonym byte = "8 word"

text \<open>
  \<open>moqtypes.py\<close> (the enumerations \<open>MessageTypes\<close>, \<open>SetupParamType\<close> and
  \<open>SessionCloseCode\<close>) is not among the sources, so every function that reads one of its
  constants takes the table as a parameter.
\<close>

record moqtypes =
  CLIENT_SETUP :: nat
  SERVER_SETUP :: nat
  GOAWAY :: nat
  SUBSCRIBE :: nat
  MAX_SUBSCRIBER_ID :: nat
  CLIENT_ROLE :: nat
  ENDPOINT_PATH :: nat
  PROTOCOL_VIOLATION :: nat

text \<open>
  Modelled from the spec: the values of the constants of the missing \<open>moqtypes.py\<close>. The
  spec fixes \<open>MAX_SUBSCRIBER_ID\<close> as key \<open>0x02\<close> and says the tags "must match a published
  registry exactly"; the other values are those of the registry of the protocol version
  \<open>0xff000007\<close> that \<open>initialize\<close> offers. Used only to evaluate concrete inputs.
\<close>

definition registry :: moqtypes where
  "registry = \<lparr>CLIENT_SETUP = 0x40, SERVER_SETUP = 0x41, GOAWAY = 0x10, SUBSCRIBE = 0x03,
     MAX_SUBSCRIBER_ID = 0x02, CLIENT_ROLE = 0x00, ENDPOINT_PATH = 0x01,
     PROTOCOL_VIOLATION = 0x03\<rparr>"

section \<open>The transport library's Buffer\<close>

text \<open>
  \<open>aioquic.buffer.Buffer\<close> is a fixed-capacity byte array with a position. The code uses
  every buffer either for writing or for reading, so there are two views: a writer (its
  capacity and the bytes pushed so far, which is what \<open>.data\<close> returns) and a reader (the
  bytes from the position to the end). A push beyond the capacity raises
  \<open>BufferWriteError\<close>, a pull beyond the end raises \<open>BufferReadError\<close>.
\<close>

record Buffer =
  capacity :: nat
  data :: "byte list"

type_synonym cursor = "byte list"

definition Buffer_new :: "nat \<Rightarrow> Buffer" where
  "Buffer_new cap = \<lparr>capacity = cap, data = []\<rparr>"

definition push_bytes :: "Buffer \<Rightarrow> byte list \<Rightarrow> error + Buffer" where
  "push_bytes b v =
     (if length (data b) + length v > capacity b then Inl BufferWriteError
      else Inr (b\<lparr>data := data b @ v\<rparr>))"

definition pull_bytes :: "nat \<Rightarrow> cursor \<Rightarrow> error + (byte list \<times> cursor)" where
  "pull_bytes n buf =
     (if n > length buf then Inl BufferReadError else Inr (take n buf, drop n buf))"

text \<open>Big-endian bytes of a number, and the number a big-endian byte string denotes.\<close>

fun be_bytes :: "nat \<Rightarrow> nat \<Rightarrow> byte list" where
  "be_bytes 0 v = []"
| "be_bytes (Suc k) v = of_nat (v div 256 ^ k) # be_bytes k v"

definition be_value :: "byte list \<Rightarrow> nat" where
  "be_value bs = foldl (\<lambda>a b. a * 256 + unat b) 0 bs"

text \<open>
  The variable-length integer of \<open>push_uint_var\<close>: 1, 2, 4 or 8 bytes, the two top bits of
  the first byte giving the length. The library takes its argument as an unsigned 64-bit
  integer without overflow check (hence \<open>mod 2 ^ 64\<close>) and raises \<open>ValueError\<close> above
  \<open>2 ^ 62 - 1\<close>. Below the length tag, or-ing the tag in is adding it.
\<close>

definition uint_var_bytes :: "nat \<Rightarrow> error + byte list" where
  "uint_var_bytes val =
     (let v = val mod 2 ^ 64 in
      if v \<le> 0x3F then Inr (be_bytes 1 v)
      else if v \<le> 0x3FFF then Inr (be_bytes 2 (v + 0x4000))
      else if v \<le> 0x3FFFFFFF then Inr (be_bytes 4 (v + 0x80000000))
      else if v \<le> 0x3FFFFFFFFFFFFFFF then Inr (be_bytes 8 (v + 0xC000000000000000))
      else Inl ValueError)"

definition push_uint_var :: "Buffer \<Rightarrow> nat \<Rightarrow> error + Buffer" where
  "push_uint_var b val =
     (case uint_var_bytes val of Inl e \<Rightarrow> Inl e | Inr bs \<Rightarrow> push_bytes b bs)"

fun pull_uint_var :: "cursor \<Rightarrow> error + (nat \<times> cursor)" where
  "pull_uint_var [] = Inl BufferReadError"
| "pull_uint_var (b # bs) =
     (let n = 2 ^ (unat b div 64) in
      if length (b # bs) < n then Inl BufferReadError
      else Inr (be_value (take n (b # bs)) mod 2 ^ (8 * n - 2), drop n (b # bs)))"

section \<open>Parameter maps and logging\<close>

text \<open>
  A parameter map is a Python \<open>dict\<close>: its keys are unique and iteration follows insertion
  order, which \<open>serialize\<close> puts on the wire, so it is an association list. The field is
  declared \<open>Dict[int, bytes]\<close>, but the deserializers store an integer under one key: a
  value is either.
\<close>

datatype pvalue = PBytes "byte list" | PInt nat

type_synonym params = "(nat \<times> pvalue) list"

text \<open>\<open>d[k] = v\<close>: an existing key keeps its place, a new one is appended.\<close>

fun dict_set :: "nat \<Rightarrow> 'v \<Rightarrow> (nat \<times> 'v) list \<Rightarrow> (nat \<times> 'v) list" where
  "dict_set k v [] = [(k, v)]"
| "dict_set k v ((k', v') # d) =
     (if k = k' then (k, v) # d else (k', v') # dict_set k v d)"


text \<open>
  A call of the module's logger: its level, the fixed part of its message and the numbers
  formatted into it. The records of a run that raises are not kept.
\<close>

datatype level = INFO | ERROR | DEBUG

type_synonym log_record = "level \<times> string \<times> nat list"

section \<open>Setup messages\<close>

text \<open>
  \<open>MOQTMessage\<close> (\<open>messages/base.py\<close>, not among the sources) contributes the dataclass
  field \<open>type\<close>, which the constructor accepts as a keyword (\<open>client_setup\<close> passes it)
  and which defaults to \<open>None\<close>.
\<close>

record MOQTMessage =
  type :: "nat option"

record ServerSetup = MOQTMessage +
  selected_version :: nat
  parameters :: params

record ClientSetup = MOQTMessage +
  versions :: "nat list"
  parameters :: params

text \<open>
  The dataclass constructor stores its arguments, then runs \<open>__post_init__\<close>, which
  assigns the variant's constant to \<open>type\<close>.
\<close>

definition ServerSetup_post_init :: "moqtypes \<Rightarrow> ServerSetup \<Rightarrow> ServerSetup" where
  "ServerSetup_post_init c self = self\<lparr>type := Some (SERVER_SETUP c)\<rparr>"

definition ServerSetup_new :: "moqtypes \<Rightarrow> nat option \<Rightarrow> nat \<Rightarrow> params \<Rightarrow> ServerSetup" where
  "ServerSetup_new c ty version ps =
     ServerSetup_post_init c \<lparr>type = ty, selected_version = version, parameters = ps\<rparr>"

definition ClientSetup_post_init :: "moqtypes \<Rightarrow> ClientSetup \<Rightarrow> ClientSetup" where
  "ClientSetup_post_init c self = self\<lparr>type := Some (CLIENT_SETUP c)\<rparr>"

definition ClientSetup_new :: "moqtypes \<Rightarrow> nat option \<Rightarrow> nat list \<Rightarrow> params \<Rightarrow> ClientSetup" where
  "ClientSetup_new c ty vs ps =
     ClientSetup_post_init c \<lparr>type = ty, versions = vs, parameters = ps\<rparr>"

text \<open>
  The loop over \<open>self.parameters.items()\<close>, the same in both \<open>serialize\<close> methods:
  key, then \<open>len(param_value)\<close> (a \<open>TypeError\<close> for an integer), then the value.
\<close>

fun push_params :: "Buffer \<Rightarrow> params \<Rightarrow> error + Buffer" where
  "push_params b [] = Inr b"
| "push_params b ((param_id, param_value) # ps) =
     (case push_uint_var b param_id of Inl e \<Rightarrow> Inl e | Inr b1 \<Rightarrow>
      (case param_value of PInt i \<Rightarrow> Inl TypeError | PBytes bs \<Rightarrow>
       (case push_uint_var b1 (length bs) of Inl e \<Rightarrow> Inl e | Inr b2 \<Rightarrow>
        (case push_bytes b2 bs of Inl e \<Rightarrow> Inl e | Inr b3 \<Rightarrow> push_params b3 ps))))"

text \<open>The last three statements of both \<open>serialize\<close> methods: the frame around the payload.\<close>

definition build_message :: "nat option \<Rightarrow> byte list \<Rightarrow> error + byte list" where
  "build_message ty payload =
     (case ty of None \<Rightarrow> Inl TypeError | Some t \<Rightarrow>
      (case push_uint_var (Buffer_new 32) t of Inl e \<Rightarrow> Inl e | Inr b1 \<Rightarrow>
       (case push_uint_var b1 (length payload) of Inl e \<Rightarrow> Inl e | Inr b2 \<Rightarrow>
        (case push_bytes b2 payload of Inl e \<Rightarrow> Inl e | Inr b3 \<Rightarrow> Inr (data b3)))))"

definition ServerSetup_payload :: "ServerSetup \<Rightarrow> error + byte list" where
  "ServerSetup_payload self =
     (case push_uint_var (Buffer_new 32) (selected_version self) of Inl e \<Rightarrow> Inl e | Inr p1 \<Rightarrow>
      (case push_uint_var p1 (length (ServerSetup.parameters self)) of Inl e \<Rightarrow> Inl e | Inr p2 \<Rightarrow>
       (case push_params p2 (ServerSetup.parameters self) of Inl e \<Rightarrow> Inl e
        | Inr p3 \<Rightarrow> Inr (data p3))))"

definition ServerSetup_serialize :: "ServerSetup \<Rightarrow> error + byte list" where
  "ServerSetup_serialize self =
     (case ServerSetup_payload self of Inl e \<Rightarrow> Inl e
      | Inr payload \<Rightarrow> build_message (type self) payload)"

fun push_versions :: "Buffer \<Rightarrow> nat list \<Rightarrow> error + Buffer" where
  "push_versions b [] = Inr b"
| "push_versions b (version # vs) =
     (case push_uint_var b version of Inl e \<Rightarrow> Inl e | Inr b1 \<Rightarrow> push_versions b1 vs)"

definition ClientSetup_payload :: "ClientSetup \<Rightarrow> error + byte list" where
  "ClientSetup_payload self =
     (case push_uint_var (Buffer_new 32) (length (versions self)) of Inl e \<Rightarrow> Inl e | Inr p1 \<Rightarrow>
      (case push_versions p1 (versions self) of Inl e \<Rightarrow> Inl e | Inr p2 \<Rightarrow>
       (case push_uint_var p2 (length (ClientSetup.parameters self)) of Inl e \<Rightarrow> Inl e | Inr p3 \<Rightarrow>
        (case push_params p3 (ClientSetup.parameters self) of Inl e \<Rightarrow> Inl e
         | Inr p4 \<Rightarrow> Inr (data p4)))))"

definition ClientSetup_serialize :: "ClientSetup \<Rightarrow> error + byte list" where
  "ClientSetup_serialize self =
     (case ClientSetup_payload self of Inl e \<Rightarrow> Inl e
      | Inr payload \<Rightarrow> build_message (type self) payload)"

text \<open>
  The body of the parameter loop, the same in both \<open>deserialize\<close> methods: key, length and
  value are pulled; the value of \<open>MAX_SUBSCRIBER_ID\<close> is replaced by the variable-length
  integer at its start; an unknown key is logged as an error; the value is stored.
\<close>

definition param_name :: "moqtypes \<Rightarrow> nat \<Rightarrow> string" where
  "param_name c param_id =
     (if param_id = MAX_SUBSCRIBER_ID c then ''MAX_SUBSCRIBER_ID''
      else if param_id = CLIENT_ROLE c then ''CLIENT_ROLE''
      else if param_id = ENDPOINT_PATH c then ''ENDPOINT_PATH''
      else ''UNKNOWN'')"

definition unknown_param_log :: "moqtypes \<Rightarrow> nat \<Rightarrow> log_record list" where
  "unknown_param_log c param_id =
     (if param_id = MAX_SUBSCRIBER_ID c \<or> param_id = CLIENT_ROLE c \<or> param_id = ENDPOINT_PATH c
      then []
      else [(ERROR, ''_handle_server_setup: received unknown setup param type'', [param_id])])"

definition pull_param ::
  "moqtypes \<Rightarrow> params \<Rightarrow> log_record list \<Rightarrow> cursor \<Rightarrow> error + (params \<times> log_record list \<times> cursor)" where
  "pull_param c ps lg buf =
     (case pull_uint_var buf of Inl e \<Rightarrow> Inl e | Inr (param_id, buf1) \<Rightarrow>
      (case pull_uint_var buf1 of Inl e \<Rightarrow> Inl e | Inr (param_len, buf2) \<Rightarrow>
       (case pull_bytes param_len buf2 of Inl e \<Rightarrow> Inl e | Inr (raw, buf3) \<Rightarrow>
        (case (if param_id = MAX_SUBSCRIBER_ID c
               then (case pull_uint_var raw of Inl e \<Rightarrow> Inl e | Inr (i, rest) \<Rightarrow> Inr (PInt i))
               else Inr (PBytes raw)) of
           Inl e \<Rightarrow> Inl e
         | Inr param_value \<Rightarrow>
             Inr (dict_set param_id param_value ps,
                  lg @ unknown_param_log c param_id
                     @ [(DEBUG, param_name c param_id, [param_id, param_len])],
                  buf3)))))"

text \<open>\<open>ServerSetup.deserialize\<close>: the loop runs \<open>param_count\<close> times.\<close>

fun ServerSetup_pull_params ::
  "moqtypes \<Rightarrow> nat \<Rightarrow> params \<Rightarrow> log_record list \<Rightarrow> cursor
     \<Rightarrow> error + (params \<times> log_record list \<times> cursor)" where
  "ServerSetup_pull_params c 0 ps lg buf = Inr (ps, lg, buf)"
| "ServerSetup_pull_params c (Suc n) ps lg buf =
     (case pull_param c ps lg buf of Inl e \<Rightarrow> Inl e
      | Inr (ps', lg', buf') \<Rightarrow> ServerSetup_pull_params c n ps' lg' buf')"

definition ServerSetup_deserialize ::
  "moqtypes \<Rightarrow> cursor \<Rightarrow> error + (ServerSetup \<times> log_record list)" where
  "ServerSetup_deserialize c buffer =
     (case pull_uint_var buffer of Inl e \<Rightarrow> Inl e | Inr (version, buf1) \<Rightarrow>
      (case pull_uint_var buf1 of Inl e \<Rightarrow> Inl e | Inr (param_count, buf2) \<Rightarrow>
       (case ServerSetup_pull_params c param_count []
               [(INFO, ''SERVER_SETUP'', [version, param_count])] buf2 of
          Inl e \<Rightarrow> Inl e
        | Inr (ps, lg, buf3) \<Rightarrow> Inr (ServerSetup_new c None version ps, lg))))"

text \<open>
  \<open>ClientSetup.deserialize\<close>: the \<open>return\<close> stands inside the body of the parameter loop,
  so the first iteration returns the message, and a loop that runs zero times falls off
  the end of the method, which returns \<open>None\<close>.
\<close>

fun pull_versions :: "nat \<Rightarrow> nat list \<Rightarrow> cursor \<Rightarrow> error + (nat list \<times> cursor)" where
  "pull_versions 0 vs buf = Inr (vs, buf)"
| "pull_versions (Suc n) vs buf =
     (case pull_uint_var buf of Inl e \<Rightarrow> Inl e
      | Inr (version, buf') \<Rightarrow> pull_versions n (vs @ [version]) buf')"

fun ClientSetup_pull_params ::
  "moqtypes \<Rightarrow> nat \<Rightarrow> nat list \<Rightarrow> log_record list \<Rightarrow> cursor
     \<Rightarrow> error + (ClientSetup option \<times> log_record list)" where
  "ClientSetup_pull_params c 0 vs lg buf = Inr (None, lg)"
| "ClientSetup_pull_params c (Suc n) vs lg buf =
     (case pull_param c [] lg buf of Inl e \<Rightarrow> Inl e
      | Inr (ps, lg', buf') \<Rightarrow> Inr (Some (ClientSetup_new c None vs ps), lg'))"

definition ClientSetup_deserialize ::
  "moqtypes \<Rightarrow> cursor \<Rightarrow> error + (ClientSetup option \<times> log_record list)" where
  "ClientSetup_deserialize c buffer =
     (case pull_uint_var buffer of Inl e \<Rightarrow> Inl e | Inr (version_count, buf1) \<Rightarrow>
      (case pull_versions version_count [] buf1 of Inl e \<Rightarrow> Inl e | Inr (vs, buf2) \<Rightarrow>
       (case pull_uint_var buf2 of Inl e \<Rightarrow> Inl e | Inr (param_count, buf3) \<Rightarrow>
        ClientSetup_pull_params c param_count vs
          [(INFO, ''CLIENT_SETUP'', vs @ [param_count])] buf3)))"

section \<open>GoAway\<close>

text \<open>
  A Python \<open>str\<close> is a sequence of code points. \<open>str.encode()\<close> is UTF-8 and raises
  \<open>UnicodeEncodeError\<close> on a surrogate; \<open>bytes.decode()\<close> is strict UTF-8 and raises
  \<open>UnicodeDecodeError\<close> on a stray or missing continuation byte, an overlong form, a
  surrogate and a value above \<open>0x10FFFF\<close>.
\<close>

type_synonym str = "nat list"

definition utf8_char :: "nat \<Rightarrow> error + byte list" where
  "utf8_char cp =
     (if cp < 0x80 then Inr [of_nat cp]
      else if cp < 0x800 then Inr [of_nat (0xC0 + cp div 64), of_nat (0x80 + cp mod 64)]
      else if 0xD800 \<le> cp \<and> cp \<le> 0xDFFF then Inl UnicodeEncodeError
      else if cp < 0x10000 then
        Inr [of_nat (0xE0 + cp div 4096), of_nat (0x80 + cp div 64 mod 64),
             of_nat (0x80 + cp mod 64)]
      else if cp < 0x110000 then
        Inr [of_nat (0xF0 + cp div 262144), of_nat (0x80 + cp div 4096 mod 64),
             of_nat (0x80 + cp div 64 mod 64), of_nat (0x80 + cp mod 64)]
      else Inl UnicodeEncodeError)"

fun str_encode :: "str \<Rightarrow> error + byte list" where
  "str_encode [] = Inr []"
| "str_encode (cp # s) =
     (case utf8_char cp of Inl e \<Rightarrow> Inl e | Inr bs \<Rightarrow>
      (case str_encode s of Inl e \<Rightarrow> Inl e | Inr rest \<Rightarrow> Inr (bs @ rest)))"

definition is_cont :: "byte \<Rightarrow> bool" where
  "is_cont b = (0x80 \<le> unat b \<and> unat b < 0xC0)"

definition decoded :: "nat \<Rightarrow> error + str \<Rightarrow> error + str" where
  "decoded cp r = (case r of Inl e \<Rightarrow> Inl e | Inr s \<Rightarrow> Inr (cp # s))"

fun bytes_decode :: "byte list \<Rightarrow> error + str" where
  "bytes_decode [] = Inr []"
| "bytes_decode (b # bs) =
     (if unat b < 0x80 then decoded (unat b) (bytes_decode bs)
      else if unat b < 0xC2 then Inl UnicodeDecodeError
      else if unat b < 0xE0 then
        (case bs of
           b1 # r \<Rightarrow>
             if is_cont b1
             then decoded ((unat b - 0xC0) * 64 + (unat b1 - 0x80)) (bytes_decode r)
             else Inl UnicodeDecodeError
         | _ \<Rightarrow> Inl UnicodeDecodeError)
      else if unat b < 0xF0 then
        (case bs of
           b1 # b2 # r \<Rightarrow>
             (let cp = (unat b - 0xE0) * 4096 + (unat b1 - 0x80) * 64 + (unat b2 - 0x80) in
              if is_cont b1 \<and> is_cont b2 \<and> 0x800 \<le> cp \<and> \<not> (0xD800 \<le> cp \<and> cp \<le> 0xDFFF)
              then decoded cp (bytes_decode r)
              else Inl UnicodeDecodeError)
         | _ \<Rightarrow> Inl UnicodeDecodeError)
      else if unat b < 0xF5 then
        (case bs of
           b1 # b2 # b3 # r \<Rightarrow>
             (let cp = (unat b - 0xF0) * 262144 + (unat b1 - 0x80) * 4096
                        + (unat b2 - 0x80) * 64 + (unat b3 - 0x80) in
              if is_cont b1 \<and> is_cont b2 \<and> is_cont b3 \<and> 0x10000 \<le> cp \<and> cp < 0x110000
              then decoded cp (bytes_decode r)
              else Inl UnicodeDecodeError)
         | _ \<Rightarrow> Inl UnicodeDecodeError)
      else Inl UnicodeDecodeError)"

record GoAway = MOQTMessage +
  new_session_uri :: str

definition GoAway_post_init :: "moqtypes \<Rightarrow> GoAway \<Rightarrow> GoAway" where
  "GoAway_post_init c self = self\<lparr>type := Some (GOAWAY c)\<rparr>"

definition GoAway_new :: "moqtypes \<Rightarrow> nat option \<Rightarrow> str \<Rightarrow> GoAway" where
  "GoAway_new c ty uri = GoAway_post_init c \<lparr>type = ty, new_session_uri = uri\<rparr>"

text \<open>
  \<open>GoAway.serialize\<close> writes into one buffer of capacity \<open>32 + len(new_session_uri)\<close>
  (the number of code points). It does not build the payload first: it computes
  \<open>payload_size\<close> as 1, for the length prefix of the URI, plus the number of URI bytes.
\<close>

definition GoAway_serialize :: "GoAway \<Rightarrow> error + byte list" where
  "GoAway_serialize self =
     (case str_encode (new_session_uri self) of Inl e \<Rightarrow> Inl e | Inr uri_bytes \<Rightarrow>
      (let payload_size = 1 + length uri_bytes in
       (case type self of None \<Rightarrow> Inl TypeError | Some t \<Rightarrow>
        (case push_uint_var (Buffer_new (32 + length (new_session_uri self))) t of
           Inl e \<Rightarrow> Inl e | Inr b1 \<Rightarrow>
         (case push_uint_var b1 payload_size of Inl e \<Rightarrow> Inl e | Inr b2 \<Rightarrow>
          (case push_uint_var b2 (length uri_bytes) of Inl e \<Rightarrow> Inl e | Inr b3 \<Rightarrow>
           (case push_bytes b3 uri_bytes of Inl e \<Rightarrow> Inl e | Inr b4 \<Rightarrow> Inr (data b4))))))))"

definition GoAway_deserialize :: "moqtypes \<Rightarrow> cursor \<Rightarrow> error + GoAway" where
  "GoAway_deserialize c buffer =
     (case pull_uint_var buffer of Inl e \<Rightarrow> Inl e | Inr (uri_len, buf1) \<Rightarrow>
      (case pull_bytes uri_len buf1 of Inl e \<Rightarrow> Inl e | Inr (raw, buf2) \<Rightarrow>
       (case bytes_decode raw of Inl e \<Rightarrow> Inl e | Inr uri \<Rightarrow> Inr (GoAway_new c None uri))))"

text \<open>\<open>ClientSetup.client_setup\<close> builds a new message and returns its serialization.\<close>

definition client_setup :: "moqtypes \<Rightarrow> ClientSetup \<Rightarrow> nat \<Rightarrow> error + byte list" where
  "client_setup c self version =
     ClientSetup_serialize (ClientSetup_new c (Some (CLIENT_SETUP c)) [version] [])"

section \<open>The client protocol\<close>

text \<open>
  \<open>MOQTClientProtocol\<close> extends \<open>MOQTProtocol\<close> (\<open>protocol.py\<close>, not among the sources),
  which owns the two \<open>asyncio.Event\<close> flags \<open>_wt_session\<close> and \<open>_moqt_session\<close>, the
  control stream id and the methods \<open>close\<close> and \<open>send_control_message\<close>. The state is the
  flags, the stream id and the trace of the calls made on the collaborators (the HTTP/3
  connection, the two inherited methods, the events and the logger), in the order made.
\<close>

datatype effect =
    SendHeaders nat
  | WaitFor string nat
  | CreateWebtransportStream nat
  | SendControlMessage "byte list"
  | Close nat string
  | SetEvent string
  | LogCall level string

record protocol =
  wt_session :: bool
  moqt_session :: bool
  control_stream_id :: "nat option"
  effects :: "effect list"

definition do_effect :: "effect \<Rightarrow> protocol \<Rightarrow> protocol" where
  "do_effect e s = s\<lparr>effects := effects s @ [e]\<rparr>"

text \<open>The messages a handler can be called with.\<close>

datatype message =
    MsgServerSetup ServerSetup
  | MsgClientSetup ClientSetup
  | MsgGoAway GoAway

text \<open>
  The closure \<open>handle_server_setup\<close> registered for \<open>SERVER_SETUP\<close>: an assertion on the
  class of the message, a log line, then either the duplicate branch (log, \<open>close\<close> with
  \<open>PROTOCOL_VIOLATION\<close> and the reason, \<open>raise RuntimeError\<close>) or \<open>_moqt_session.set()\<close>.
\<close>

definition duplicate_error :: string where
  "duplicate_error = ''Received duplicate SERVER_SETUP message''"

definition handle_server_setup :: "moqtypes \<Rightarrow> protocol \<Rightarrow> message \<Rightarrow> (error + unit) \<times> protocol" where
  "handle_server_setup c s msg =
     (case msg of
        MsgServerSetup m \<Rightarrow>
          (let s1 = do_effect (LogCall INFO ''Received ServerSetup'') s in
           if moqt_session s1 then
             (let s2 = do_effect (LogCall ERROR duplicate_error) s1;
                  s3 = do_effect (Close (PROTOCOL_VIOLATION c) duplicate_error) s2
              in (Inl (RuntimeError duplicate_error), s3))
           else (Inr (), (do_effect (SetEvent ''_moqt_session'') s1)\<lparr>moqt_session := True\<rparr>))
      | _ \<Rightarrow> (Inl AssertionError, s))"

text \<open>
  What \<open>initialize\<close> gets from outside: the stream ids the connection hands out, and for
  each of the two events the time, counted from the start of the wait for it, at which
  the peer's answer sets it (\<open>None\<close>: never). \<open>asyncio.wait_for(event.wait(), timeout)\<close>
  returns if the event is set already or becomes set before the timeout, and raises
  \<open>TimeoutError\<close> otherwise.
\<close>

record environment =
  next_stream_id :: nat
  webtransport_stream_id :: nat
  wt_session_set_at :: "nat option"
  moqt_session_set_at :: "nat option"

definition wait_for :: "bool \<Rightarrow> nat option \<Rightarrow> nat \<Rightarrow> bool" where
  "wait_for flag set_at timeout =
     (flag \<or> (case set_at of None \<Rightarrow> False | Some t \<Rightarrow> t < timeout))"

definition initialize :: "moqtypes \<Rightarrow> environment \<Rightarrow> protocol \<Rightarrow> (error + unit) \<times> protocol" where
  "initialize c env s =
     (let session_stream_id = next_stream_id env;
          s1 = do_effect (LogCall INFO ''Sending WebTransport session request'') s;
          s2 = do_effect (SendHeaders session_stream_id) s1;
          s3 = do_effect (WaitFor ''_wt_session'' 30) s2
      in if \<not> wait_for (wt_session s3) (wt_session_set_at env) 30 then
           (Inl TimeoutError,
            do_effect (LogCall ERROR ''WebTransport session establishment timeout'') s3)
         else
           (let s4 = (do_effect (CreateWebtransportStream session_stream_id) s3)
                       \<lparr>wt_session := True,
                        control_stream_id := Some (webtransport_stream_id env)\<rparr>;
                s5 = do_effect (LogCall INFO ''Created control stream'') s4;
                s6 = do_effect (LogCall INFO ''Sending CLIENT_SETUP'') s5
            in case ClientSetup_serialize (ClientSetup_new c None [0xff000007] []) of
                 Inl e \<Rightarrow> (Inl e, s6)
               | Inr bs \<Rightarrow>
                   (let s7 = do_effect (SendControlMessage bs) s6;
                        s8 = do_effect (WaitFor ''_moqt_session'' 10) s7
                    in if \<not> wait_for (moqt_session s8) (moqt_session_set_at env) 10 then
                         (Inl TimeoutError,
                          do_effect (LogCall ERROR ''MOQT session setup timeout'') s8)
                       else
                         (Inr (), (do_effect (LogCall INFO ''MOQT session setup complete'') s8)
                                    \<lparr>moqt_session := True\<rparr>))))"

text \<open>The session counts as closed once \<open>close\<close> has been called.\<close>

fun is_Close :: "effect \<Rightarrow> bool" where
  "is_Close (Close code reason) = True"
| "is_Close e = False"

definition closed :: "protocol \<Rightarrow> bool" where
  "closed s = list_ex is_Close (effects s)"

fun is_SendControlMessage :: "effect \<Rightarrow> bool" where
  "is_SendControlMessage (SendControlMessage bs) = True"
| "is_SendControlMessage e = False"

text \<open>
  \<open>messages/subscribe.py\<close> is not among the sources. The enumerations are those the spec
  lists; the fields of \<open>Subscribe\<close> are the keywords \<open>subscribe\<close> passes.
\<close>

datatype GroupOrder = NONE | ASCENDING | DESCENDING

datatype FilterType = LATEST_GROUP | LATEST_OBJECT | ABSOLUTE_START | ABSOLUTE_RANGE

record Subscribe = MOQTMessage +
  subscribe_id :: nat
  track_alias :: nat
  namespace :: "byte list"
  track_name :: "byte list"
  priority :: nat
  direction :: GroupOrder
  filter_type :: FilterType
  start_group :: "nat option"
  start_object :: "nat option"
  end_group :: "nat option"
  parameters :: params

text \<open>
  Modelled from the spec: the constructor of \<open>Subscribe\<close>, from the missing
  \<open>messages/subscribe.py\<close>. "A Subscribe message with a filter type that logically
  requires bounds but omits them is a protocol-violation, detected by the sender's
  constructor, not by the wire codec": the start bounds are required by absolute-start
  and absolute-range, the end group by absolute-range.
\<close>

definition bounds_consistent ::
  "FilterType \<Rightarrow> nat option \<Rightarrow> nat option \<Rightarrow> nat option \<Rightarrow> bool" where
  "bounds_consistent ft sg so eg =
     (case ft of
        ABSOLUTE_START \<Rightarrow> sg \<noteq> None \<and> so \<noteq> None
      | ABSOLUTE_RANGE \<Rightarrow> sg \<noteq> None \<and> so \<noteq> None \<and> eg \<noteq> None
      | _ \<Rightarrow> True)"

definition Subscribe_new ::
  "moqtypes \<Rightarrow> nat \<Rightarrow> nat \<Rightarrow> byte list \<Rightarrow> byte list \<Rightarrow> nat \<Rightarrow> GroupOrder \<Rightarrow> FilterType
     \<Rightarrow> nat option \<Rightarrow> nat option \<Rightarrow> nat option \<Rightarrow> params \<Rightarrow> error + Subscribe" where
  "Subscribe_new c sid alias ns tn prio order ft sg so eg ps =
     (if bounds_consistent ft sg so eg
      then Inr \<lparr>type = Some (SUBSCRIBE c), subscribe_id = sid, track_alias = alias,
                 namespace = ns, track_name = tn, priority = prio, direction = order,
                 filter_type = ft, start_group = sg, start_object = so, end_group = eg,
                 parameters = ps\<rparr>
      else Inl ProtocolViolation)"

text \<open>
  \<open>subscribe\<close>: the argument of \<open>send_control_message\<close> is evaluated first, that is the two
  \<open>encode\<close> calls, the constructor and \<open>serialize\<close>, in this order; an exception in any of
  them leaves the call unmade. \<open>Subscribe.serialize\<close>, also in the missing file, is the
  parameter \<open>serialize\<close>.
\<close>

definition subscribe ::
  "moqtypes \<Rightarrow> (Subscribe \<Rightarrow> error + byte list) \<Rightarrow> protocol \<Rightarrow> str \<Rightarrow> str \<Rightarrow> nat \<Rightarrow> nat \<Rightarrow> nat
     \<Rightarrow> GroupOrder \<Rightarrow> FilterType \<Rightarrow> nat option \<Rightarrow> nat option \<Rightarrow> nat option \<Rightarrow> params option
     \<Rightarrow> (error + unit) \<times> protocol" where
  "subscribe c serialize s ns tn sid alias prio group_order ft sg so eg ps =
     (let s1 = do_effect (LogCall INFO ''Subscribing'') s;
          ps' = (case ps of None \<Rightarrow> [] | Some p \<Rightarrow> p)
      in case str_encode ns of Inl e \<Rightarrow> (Inl e, s1) | Inr ns_bytes \<Rightarrow>
         (case str_encode tn of Inl e \<Rightarrow> (Inl e, s1) | Inr tn_bytes \<Rightarrow>
          (case Subscribe_new c sid alias ns_bytes tn_bytes prio group_order ft sg so eg ps' of
             Inl e \<Rightarrow> (Inl e, s1)
           | Inr m \<Rightarrow>
               (case serialize m of Inl e \<Rightarrow> (Inl e, s1)
                | Inr bs \<Rightarrow> (Inr (), do_effect (SendControlMessage bs) s1)))))"

section \<open>The wire layout of a setup payload\<close>

text \<open>
  The layout the spec gives for payloads, as a function from the values to the bytes: a
  variable-length integer where it can be encoded (below \<open>2 ^ 62\<close>); a parameter map as
  its entries, each the key, the length of the value and the value bytes; a
  \<open>ServerSetup\<close> payload as the selected version, the parameter count and the entries.
\<close>

definition uint_var :: "nat \<Rightarrow> byte list" where
  "uint_var v = (case uint_var_bytes v of Inl e \<Rightarrow> [] | Inr bs \<Rightarrow> bs)"

fun wire_params :: "(nat \<times> byte list) list \<Rightarrow> byte list" where
  "wire_params [] = []"
| "wire_params ((k, raw) # es) = uint_var k @ uint_var (length raw) @ raw @ wire_params es"

definition ServerSetup_wire :: "nat \<Rightarrow> (nat \<times> byte list) list \<Rightarrow> byte list" where
  "ServerSetup_wire version es = uint_var version @ uint_var (length es) @ wire_params es"

text \<open>
  A well-formed list of wire parameters: every number fits a variable-length integer, the
  keys are unique, and the value of \<open>MAX_SUBSCRIBER_ID\<close> starts with a complete
  variable-length integer.
\<close>

definition starts_with_uint_var :: "byte list \<Rightarrow> bool" where
  "starts_with_uint_var raw = (case pull_uint_var raw of Inl e \<Rightarrow> False | Inr r \<Rightarrow> True)"

definition well_formed_params :: "moqtypes \<Rightarrow> (nat \<times> byte list) list \<Rightarrow> bool" where
  "well_formed_params c es =
     (length es < 2 ^ 62 \<and> distinct (map fst es) \<and>
      list_all (\<lambda>(k, raw). k < 2 ^ 62 \<and> length raw < 2 ^ 62 \<and>
                 (k = MAX_SUBSCRIBER_ID c \<longrightarrow> starts_with_uint_var raw)) es)"

text \<open>The value a deserializer keeps for a wire parameter, and the map it builds.\<close>

definition uint_var_value :: "byte list \<Rightarrow> nat" where
  "uint_var_value raw = (case pull_uint_var raw of Inl e \<Rightarrow> 0 | Inr (i, rest) \<Rightarrow> i)"

definition stored_value :: "moqtypes \<Rightarrow> nat \<Rightarrow> byte list \<Rightarrow> pvalue" where
  "stored_value c k raw =
     (if k = MAX_SUBSCRIBER_ID c then PInt (uint_var_value raw) else PBytes raw)"

definition store_params :: "moqtypes \<Rightarrow> params \<Rightarrow> (nat \<times> byte list) list \<Rightarrow> params" where
  "store_params c ps es = foldl (\<lambda>ps (k, raw). dict_set k (stored_value c k raw) ps) ps es"

definition param_logs :: "moqtypes \<Rightarrow> (nat \<times> byte list) list \<Rightarrow> log_record list" where
  "param_logs c es =
     concat (map (\<lambda>(k, raw). unknown_param_log c k
                    @ [(DEBUG, param_name c k, [k, length raw])]) es)"

section \<open>Properties\<close>

subsection \<open>The variable-length integer codec\<close>

lemma length_be_bytes: "length (be_bytes k v) = k"
  by (induction k) simp_all

lemma unat_of_nat_byte: "unat (of_nat n :: byte) = n mod 256"
  by (simp add: unat_of_nat)

lemma be_bytes_1: "be_bytes (Suc 0) v = [of_nat v]"
  by simp

lemma be_bytes_2: "be_bytes 2 v = [of_nat (v div 256), of_nat v]"
proof -
  have e: "(2::nat) = Suc (Suc 0)" by simp
  show ?thesis unfolding e by simp
qed

lemma be_bytes_4: "be_bytes 4 v = [of_nat (v div 16777216), of_nat (v div 65536), of_nat (v div 256), of_nat v]"
proof -
  have e: "(4::nat) = Suc (Suc (Suc (Suc 0)))" by simp
  show ?thesis unfolding e by simp
qed

lemma be_bytes_8: "be_bytes 8 v = [of_nat (v div 72057594037927936), of_nat (v div 281474976710656),
   of_nat (v div 1099511627776), of_nat (v div 4294967296),
   of_nat (v div 16777216), of_nat (v div 65536), of_nat (v div 256), of_nat v]"
proof -
  have e: "(8::nat) = Suc (Suc (Suc (Suc (Suc (Suc (Suc (Suc 0)))))))" by simp
  show ?thesis unfolding e by simp
qed

lemma foldl_be: "foldl (\<lambda>a b. a * 256 + unat (b :: byte)) a bs
    = a * 256 ^ length bs + foldl (\<lambda>a b. a * 256 + unat b) 0 bs"
proof (induction bs arbitrary: a)
  case Nil
  show ?case by simp
next
  case (Cons x xs)
  have "foldl (\<lambda>a b. a * 256 + unat b) (a * 256 + unat x) xs
      = (a * 256 + unat x) * 256 ^ length xs + foldl (\<lambda>a b. a * 256 + unat b) 0 xs"
    by (rule Cons.IH)
  moreover have "foldl (\<lambda>a b. a * 256 + unat b) (unat x) xs
      = unat x * 256 ^ length xs + foldl (\<lambda>a b. a * 256 + unat b) 0 xs"
    by (rule Cons.IH)
  ultimately show ?case by (simp add: distrib_right)
qed

lemma be_value_Cons: "be_value (b # bs) = unat b * 256 ^ length bs + be_value bs"
  using foldl_be [of "unat b" bs] by (simp add: be_value_def)

lemma be_value_be_bytes: "be_value (be_bytes k x) = x mod 256 ^ k"
proof (induction k)
  case 0
  show ?case by (simp add: be_value_def)
next
  case (Suc k)
  have "x mod (256 ^ k * 256) = 256 ^ k * (x div 256 ^ k mod 256) + x mod 256 ^ k"
    by (rule mod_mult2_eq)
  then show ?case
    by (simp add: be_value_Cons length_be_bytes unat_of_nat_byte Suc.IH mult.commute)
qed

lemma pull_uint_var_be:
  assumes k: "0 < k" and x: "x < 256 ^ k"
    and tag: "2 ^ (x div 256 ^ (k - 1) div 64) = k"
  shows "pull_uint_var (be_bytes k x @ rest) = Inr (x mod 2 ^ (8 * k - 2), rest)"
proof -
  from k obtain j where j: "k = Suc j" by (cases k) auto
  have "x div 256 ^ j < 256"
    using x by (simp add: j less_mult_imp_div_less mult.commute)
  then have b: "unat (of_nat (x div 256 ^ j) :: byte) = x div 256 ^ j"
    by (simp add: unat_of_nat_byte)
  have v: "be_value (be_bytes (Suc j) x) = x"
    using x by (simp only: be_value_be_bytes j mod_less)
  have l: "length (be_bytes j x) = j" by (rule length_be_bytes)
  have "pull_uint_var ((of_nat (x div 256 ^ j) # be_bytes j x) @ rest)
        = Inr (be_value (of_nat (x div 256 ^ j) # be_bytes j x) mod 2 ^ (8 * k - 2), rest)"
    using tag by (simp add: b j l Let_def)
  then show ?thesis using v by (simp add: j)
qed

lemma pull_uint_var_encoded:
  assumes "uint_var_bytes v = Inr bs"
  shows "pull_uint_var (bs @ rest) = Inr (v mod 2 ^ 64, rest)"
proof -
  define w where "w = v mod 2 ^ 64"
  have enc: "(if w \<le> 0x3F then Inr (be_bytes 1 w)
      else if w \<le> 0x3FFF then Inr (be_bytes 2 (w + 0x4000))
      else if w \<le> 0x3FFFFFFF then Inr (be_bytes 4 (w + 0x80000000))
      else if w \<le> 0x3FFFFFFFFFFFFFFF then Inr (be_bytes 8 (w + 0xC000000000000000))
      else Inl ValueError) = Inr bs"
    using assms unfolding uint_var_bytes_def Let_def w_def .
  consider (a) "w \<le> 0x3F" | (b) "0x3F < w" "w \<le> 0x3FFF" | (c) "0x3FFF < w" "w \<le> 0x3FFFFFFF"
    | (d) "0x3FFFFFFF < w" "w \<le> 0x3FFFFFFFFFFFFFFF" | (e) "0x3FFFFFFFFFFFFFFF < w"
    by linarith
  then have "pull_uint_var (bs @ rest) = Inr (w, rest)"
  proof cases
    case a
    then have bs: "bs = be_bytes 1 w" using enc by simp
    have m: "w mod 2 ^ (8 * 1 - 2) = w" using a by simp
    have "pull_uint_var (be_bytes 1 w @ rest) = Inr (w mod 2 ^ (8 * 1 - 2), rest)"
      using a by (intro pull_uint_var_be) simp_all
    then show ?thesis by (simp only: bs m)
  next
    case b
    then have bs: "bs = be_bytes 2 (w + 0x4000)" using enc by simp
    have m: "(w + 0x4000) mod 2 ^ (8 * 2 - 2) = w" using b by simp
    have "(w + 0x4000) div 256 ^ (2 - 1) div 64 = 1" using b by simp
    then have "pull_uint_var (be_bytes 2 (w + 0x4000) @ rest) = Inr ((w + 0x4000) mod 2 ^ (8 * 2 - 2), rest)"
      using b by (intro pull_uint_var_be) simp_all
    then show ?thesis by (simp only: bs m)
  next
    case c
    then have bs: "bs = be_bytes 4 (w + 0x80000000)" using enc by simp
    have "(w + 1073741824 * 2) mod 1073741824 = w mod 1073741824"
      by (rule mod_mult_self2)
    then have m: "(w + 0x80000000) mod 2 ^ (8 * 4 - 2) = w" using c by simp
    have "(w + 0x80000000) div 256 ^ (4 - 1) div 64 = 2" using c by simp
    then have "pull_uint_var (be_bytes 4 (w + 0x80000000) @ rest) = Inr ((w + 0x80000000) mod 2 ^ (8 * 4 - 2), rest)"
      using c by (intro pull_uint_var_be) simp_all
    then show ?thesis by (simp only: bs m)
  next
    case d
    then have bs: "bs = be_bytes 8 (w + 0xC000000000000000)" using enc by simp
    have "(w + 4611686018427387904 * 3) mod 4611686018427387904 = w mod 4611686018427387904"
      by (rule mod_mult_self2)
    then have m: "(w + 0xC000000000000000) mod 2 ^ (8 * 8 - 2) = w" using d by simp
    have "(w + 0xC000000000000000) div 256 ^ (8 - 1) div 64 = 3" using d by simp
    then have "pull_uint_var (be_bytes 8 (w + 0xC000000000000000) @ rest) = Inr ((w + 0xC000000000000000) mod 2 ^ (8 * 8 - 2), rest)"
      using d by (intro pull_uint_var_be) simp_all
    then show ?thesis by (simp only: bs m)
  next
    case e
    then show ?thesis using enc by simp
  qed
  then show ?thesis unfolding w_def .
qed

subsection \<open>Concrete runs of the setup deserializers\<close>

text \<open>
  Claim C2. A well-formed \<open>ClientSetup\<close> payload with a zero parameter count should
  decode to a \<open>ClientSetup\<close> carrying the version list and an empty parameter map. On
  the payload of \<open>ClientSetup(versions=[0xff000007], parameters={})\<close> (one version,
  zero parameters) the method returns \<open>None\<close>: its \<open>return\<close> is inside the loop
  body, which never runs.
\<close>

theorem ClientSetup_deserialize_zero_params_returns_None:
  "ClientSetup_deserialize registry [1, 0xC0, 0, 0, 0, 0xFF, 0, 0, 7, 0]
     = Inr (None, [(INFO, ''CLIENT_SETUP'', [0xff000007, 0])])"
  by (simp add: ClientSetup_deserialize_def be_value_def)

text \<open>
  Claim C10. \<open>ServerSetup.serialize\<close> is not total on the outputs of
  \<open>ServerSetup.deserialize\<close>: the payload of version \<open>0xff000007\<close> with the one
  parameter \<open>MAX_SUBSCRIBER_ID\<close>, value bytes \<open>0a\<close>, deserializes to a message that
  holds the integer 10 under that key, and serializing this message raises \<open>TypeError\<close>
  at \<open>len(param_value)\<close>.
\<close>

theorem ServerSetup_serialize_fails_on_deserialized_int:
  "\<exists>m lg. ServerSetup_deserialize registry [0xC0, 0, 0, 0, 0xFF, 0, 0, 7, 1, 2, 1, 0x0A] = Inr (m, lg)
     \<and> map_of (ServerSetup.parameters m) (MAX_SUBSCRIBER_ID registry) = Some (PInt 10)
     \<and> ServerSetup_serialize m = Inl TypeError"
proof -
  have d: "ServerSetup_deserialize registry [0xC0, 0, 0, 0, 0xFF, 0, 0, 7, 1, 2, 1, 0x0A]
      = Inr (\<lparr>type = Some 0x41, selected_version = 0xff000007, parameters = [(2, PInt 10)]\<rparr>,
             [(INFO, ''SERVER_SETUP'', [0xff000007, 1]), (DEBUG, ''MAX_SUBSCRIBER_ID'', [2, 1])])"
    by (simp add: ServerSetup_deserialize_def pull_param_def pull_bytes_def be_value_def
        registry_def ServerSetup_new_def ServerSetup_post_init_def unknown_param_log_def
        param_name_def)
  have s: "ServerSetup_serialize
       \<lparr>type = Some 0x41, selected_version = 0xff000007, parameters = [(2, PInt 10)]\<rparr>
      = Inl TypeError"
    by (simp add: ServerSetup_serialize_def ServerSetup_payload_def push_uint_var_def
        uint_var_bytes_def push_bytes_def Buffer_new_def be_bytes_8)
  show ?thesis
    unfolding d using s by (simp add: registry_def)
qed

subsection \<open>Deserializing the wire layout\<close>

lemma uint_var_bytes_ok: "v < 2 ^ 62 \<Longrightarrow> uint_var_bytes v = Inr (uint_var v)"
  by (simp add: uint_var_def uint_var_bytes_def Let_def)

lemma pull_uint_var_uint_var:
  "v < 2 ^ 62 \<Longrightarrow> pull_uint_var (uint_var v @ rest) = Inr (v, rest)"
  using pull_uint_var_encoded [OF uint_var_bytes_ok, of v rest] by simp

lemma pull_bytes_append: "pull_bytes (length raw) (raw @ rest) = Inr (raw, rest)"
  by (simp add: pull_bytes_def)

lemma pull_param_wire:
  assumes "k < 2 ^ 62" and "length raw < 2 ^ 62"
    and "k = MAX_SUBSCRIBER_ID c \<longrightarrow> starts_with_uint_var raw"
  shows "pull_param c ps lg (uint_var k @ uint_var (length raw) @ raw @ rest)
     = Inr (dict_set k (stored_value c k raw) ps,
            lg @ unknown_param_log c k @ [(DEBUG, param_name c k, [k, length raw])], rest)"
proof (cases "k = MAX_SUBSCRIBER_ID c")
  case True
  with assms(3) obtain i r where "pull_uint_var raw = Inr (i, r)"
    by (auto simp: starts_with_uint_var_def split: sum.splits)
  then show ?thesis
    using assms(1,2) True
    by (simp add: pull_param_def pull_uint_var_uint_var pull_bytes_append stored_value_def
        uint_var_value_def)
next
  case False
  then show ?thesis
    using assms(1,2)
    by (simp add: pull_param_def pull_uint_var_uint_var pull_bytes_append stored_value_def)
qed

lemma ServerSetup_pull_params_wire:
  assumes "list_all (\<lambda>(k, raw). k < 2 ^ 62 \<and> length raw < 2 ^ 62 \<and>
                 (k = MAX_SUBSCRIBER_ID c \<longrightarrow> starts_with_uint_var raw)) es"
  shows "ServerSetup_pull_params c (length es) ps lg (wire_params es @ rest)
     = Inr (store_params c ps es, lg @ param_logs c es, rest)"
  using assms
proof (induction es arbitrary: ps lg)
  case Nil
  show ?case by (simp add: store_params_def param_logs_def)
next
  case (Cons e es)
  obtain k raw where e: "e = (k, raw)" by (cases e)
  from Cons.prems have h: "k < 2 ^ 62" "length raw < 2 ^ 62"
    "k = MAX_SUBSCRIBER_ID c \<longrightarrow> starts_with_uint_var raw"
    and t: "list_all (\<lambda>(k, raw). k < 2 ^ 62 \<and> length raw < 2 ^ 62 \<and>
                 (k = MAX_SUBSCRIBER_ID c \<longrightarrow> starts_with_uint_var raw)) es"
    by (simp_all add: e)
  have step: "pull_param c ps lg (wire_params (e # es) @ rest)
     = Inr (dict_set k (stored_value c k raw) ps,
            lg @ unknown_param_log c k @ [(DEBUG, param_name c k, [k, length raw])],
            wire_params es @ rest)"
    using pull_param_wire [OF h, of ps lg "wire_params es @ rest"] by (simp add: e)
  show ?case
    by (simp add: step Cons.IH [OF t]) (simp add: e store_params_def param_logs_def)
qed

lemma ServerSetup_deserialize_wire:
  assumes "version < 2 ^ 62" and "well_formed_params c es"
  shows "ServerSetup_deserialize c (ServerSetup_wire version es)
     = Inr (ServerSetup_new c None version (store_params c [] es),
            (INFO, ''SERVER_SETUP'', [version, length es]) # param_logs c es)"
proof -
  from assms(2) have n: "length es < 2 ^ 62"
    and l: "list_all (\<lambda>(k, raw). k < 2 ^ 62 \<and> length raw < 2 ^ 62 \<and>
                 (k = MAX_SUBSCRIBER_ID c \<longrightarrow> starts_with_uint_var raw)) es"
    by (simp_all add: well_formed_params_def)
  have v: "pull_uint_var (uint_var version @ uint_var (length es) @ wire_params es)
      = Inr (version, uint_var (length es) @ wire_params es)"
    using assms(1) by (rule pull_uint_var_uint_var)
  have k: "pull_uint_var (uint_var (length es) @ wire_params es) = Inr (length es, wire_params es)"
    using n by (rule pull_uint_var_uint_var)
  have p: "ServerSetup_pull_params c (length es) [] [(INFO, ''SERVER_SETUP'', [version, length es])]
        (wire_params es)
      = Inr (store_params c [] es,
             [(INFO, ''SERVER_SETUP'', [version, length es])] @ param_logs c es, [])"
    using ServerSetup_pull_params_wire [OF l, of "[]" _ "[]"] by simp
  show ?thesis
    by (simp add: ServerSetup_deserialize_def ServerSetup_wire_def v k p)
qed

lemma map_of_dict_set: "map_of (dict_set k v d) = (map_of d)(k \<mapsto> v)"
  by (induction d) auto


lemma map_of_store_params:
  "distinct (map fst es) \<Longrightarrow> (k, raw) \<in> set es
     \<Longrightarrow> map_of (store_params c ps es) k = Some (stored_value c k raw)"
proof (induction es arbitrary: ps)
  case Nil
  then show ?case by simp
next
  case (Cons e es)
  obtain k' raw' where e: "e = (k', raw')" by (cases e)
  have unf: "store_params c ps (e # es) = store_params c (dict_set k' (stored_value c k' raw') ps) es"
    by (simp add: store_params_def e)
  show ?case
  proof (cases "(k, raw) \<in> set es")
    case True
    with Cons show ?thesis by (simp add: unf)
  next
    case False
    with Cons.prems have eq: "k' = k" "raw' = raw" and notin: "k \<notin> fst ` set es"
      by (auto simp: e)
    have keep: "k \<notin> fst ` set es \<Longrightarrow> map_of (store_params c qs es) k = map_of qs k" for qs
    proof (induction es arbitrary: qs)
      case Nil
      show ?case by (simp add: store_params_def)
    next
      case (Cons x xs)
      obtain a b where x: "x = (a, b)" by (cases x)
      have "store_params c qs (x # xs) = store_params c (dict_set a (stored_value c a b) qs) xs"
        by (simp add: store_params_def x)
      with Cons show ?case by (simp add: x map_of_dict_set)
    qed
    show ?thesis
      by (simp add: unf keep [OF notin] map_of_dict_set eq)
  qed
qed

lemma param_logs_unknown:
  "(k, raw) \<in> set es \<Longrightarrow> set (unknown_param_log c k) \<subseteq> set (param_logs c es)"
  by (force simp: param_logs_def)

lemma uint_var_small: "v \<le> 63 \<Longrightarrow> uint_var v = [of_nat v]"
  by (simp add: uint_var_def uint_var_bytes_def Let_def)

lemma uint_var_ff000007: "uint_var 0xff000007 = [0xC0, 0, 0, 0, 0xFF, 0, 0, 7]"
  by (simp add: uint_var_def uint_var_bytes_def Let_def be_bytes_8)

text \<open>
  Claim C7. For every well-formed \<open>ServerSetup\<close> payload (a version and a well-formed
  parameter list in the wire layout) that holds the key \<open>MAX_SUBSCRIBER_ID\<close> with a value
  starting with the variable-length integer \<open>n\<close>, \<open>ServerSetup.deserialize\<close> returns a
  message whose parameter map has the integer \<open>n\<close> under that key, not the raw bytes.
  The witness is the spec's scenario: version \<open>0xff000007\<close>, key \<open>0x02\<close>, value byte
  \<open>0a\<close>, decoded to 10.
\<close>

theorem ServerSetup_deserialize_decodes_max_subscriber_id:
  assumes "version < 2 ^ 62" and "well_formed_params c es"
    and "(MAX_SUBSCRIBER_ID c, raw) \<in> set es" and "pull_uint_var raw = Inr (n, rest)"
  shows "\<exists>m lg. ServerSetup_deserialize c (ServerSetup_wire version es) = Inr (m, lg)
     \<and> map_of (ServerSetup.parameters m) (MAX_SUBSCRIBER_ID c) = Some (PInt n)
     \<and> map_of (ServerSetup.parameters m) (MAX_SUBSCRIBER_ID c) \<noteq> Some (PBytes raw)"
proof -
  from assms(2) have d: "distinct (map fst es)" by (simp add: well_formed_params_def)
  have "map_of (store_params c [] es) (MAX_SUBSCRIBER_ID c)
      = Some (stored_value c (MAX_SUBSCRIBER_ID c) raw)"
    using d assms(3) by (rule map_of_store_params)
  then have "map_of (store_params c [] es) (MAX_SUBSCRIBER_ID c) = Some (PInt n)"
    using assms(4) by (simp add: stored_value_def uint_var_value_def)
  then show ?thesis
    by (simp add: ServerSetup_deserialize_wire [OF assms(1,2)] ServerSetup_new_def
        ServerSetup_post_init_def)
qed

theorem ServerSetup_deserialize_decodes_max_subscriber_id_witness:
  "(0xff000007 :: nat) < 2 ^ 62 \<and> well_formed_params registry [(2, [0x0A])]
   \<and> (MAX_SUBSCRIBER_ID registry, [0x0A]) \<in> set [(2, [0x0A])]
   \<and> pull_uint_var [0x0A] = Inr (10, [])
   \<and> ServerSetup_wire 0xff000007 [(2, [0x0A])] = [0xC0, 0, 0, 0, 0xFF, 0, 0, 7, 1, 2, 1, 0x0A]
   \<and> (\<exists>m lg. ServerSetup_deserialize registry [0xC0, 0, 0, 0, 0xFF, 0, 0, 7, 1, 2, 1, 0x0A] = Inr (m, lg)
        \<and> map_of (ServerSetup.parameters m) 2 = Some (PInt 10))"
proof -
  have h1: "(0xff000007 :: nat) < 2 ^ 62" by simp
  have h4: "pull_uint_var [0x0A] = Inr (10, [])" by (simp add: be_value_def)
  have h2: "well_formed_params registry [(2, [0x0A])]"
    by (simp add: well_formed_params_def registry_def starts_with_uint_var_def h4)
  have h3: "(MAX_SUBSCRIBER_ID registry, [0x0A]) \<in> set [(2, [0x0A])]"
    by (simp add: registry_def)
  have w: "ServerSetup_wire 0xff000007 [(2, [0x0A])] = [0xC0, 0, 0, 0, 0xFF, 0, 0, 7, 1, 2, 1, 0x0A]"
    by (simp add: ServerSetup_wire_def uint_var_ff000007 uint_var_small)
  have k: "MAX_SUBSCRIBER_ID registry = 2" by (simp add: registry_def)
  have e: "\<exists>m lg. ServerSetup_deserialize registry [0xC0, 0, 0, 0, 0xFF, 0, 0, 7, 1, 2, 1, 0x0A] = Inr (m, lg)
        \<and> map_of (ServerSetup.parameters m) 2 = Some (PInt 10)"
    using ServerSetup_deserialize_decodes_max_subscriber_id [OF h1 h2 h3 h4]
    unfolding w k by blast
  show ?thesis
    using h1 h2 h3 h4 w e by blast
qed

text \<open>
  Unknown keys in \<open>ServerSetup.deserialize\<close>. For every well-formed \<open>ServerSetup\<close>
  payload that holds a parameter whose key is none of \<open>MAX_SUBSCRIBER_ID\<close>,
  \<open>CLIENT_ROLE\<close>, \<open>ENDPOINT_PATH\<close>, deserialization returns a message (no parse
  error), the parameter map has the raw bytes under that key, and the unknown key has been
  reported through \<open>logger.error\<close>.
\<close>

lemma ServerSetup_deserialize_keeps_unknown_param:
  assumes "version < 2 ^ 62" and "well_formed_params c es" and "(k, raw) \<in> set es"
    and "k \<noteq> MAX_SUBSCRIBER_ID c" and "k \<noteq> CLIENT_ROLE c" and "k \<noteq> ENDPOINT_PATH c"
  shows "\<exists>m lg. ServerSetup_deserialize c (ServerSetup_wire version es) = Inr (m, lg)
     \<and> map_of (ServerSetup.parameters m) k = Some (PBytes raw)
     \<and> (ERROR, ''_handle_server_setup: received unknown setup param type'', [k]) \<in> set lg"
proof -
  from assms(2) have d: "distinct (map fst es)" by (simp add: well_formed_params_def)
  have "map_of (store_params c [] es) k = Some (stored_value c k raw)"
    using d assms(3) by (rule map_of_store_params)
  then have v: "map_of (store_params c [] es) k = Some (PBytes raw)"
    using assms(4) by (simp add: stored_value_def)
  have "(ERROR, ''_handle_server_setup: received unknown setup param type'', [k])
      \<in> set (unknown_param_log c k)"
    using assms(4,5,6) by (simp add: unknown_param_log_def)
  then have l: "(ERROR, ''_handle_server_setup: received unknown setup param type'', [k])
      \<in> set (param_logs c es)"
    using param_logs_unknown [OF assms(3), of c] by blast
  show ?thesis
    using v l
    by (simp add: ServerSetup_deserialize_wire [OF assms(1,2)] ServerSetup_new_def
        ServerSetup_post_init_def)
qed

lemma ServerSetup_deserialize_keeps_unknown_param_witness:
  "(0xff000007 :: nat) < 2 ^ 62 \<and> well_formed_params registry [(2, [0x0A]), (0x21, [1, 2, 3])]
   \<and> (0x21, [1, 2, 3]) \<in> set [(2, [0x0A]), (0x21, [1, 2, 3 :: byte])]
   \<and> 0x21 \<noteq> MAX_SUBSCRIBER_ID registry \<and> 0x21 \<noteq> CLIENT_ROLE registry
   \<and> 0x21 \<noteq> ENDPOINT_PATH registry
   \<and> ServerSetup_wire 0xff000007 [(2, [0x0A]), (0x21, [1, 2, 3])]
       = [0xC0, 0, 0, 0, 0xFF, 0, 0, 7, 2, 2, 1, 0x0A, 0x21, 3, 1, 2, 3]
   \<and> (\<exists>m lg. ServerSetup_deserialize registry
                 [0xC0, 0, 0, 0, 0xFF, 0, 0, 7, 2, 2, 1, 0x0A, 0x21, 3, 1, 2, 3] = Inr (m, lg)
        \<and> map_of (ServerSetup.parameters m) 0x21 = Some (PBytes [1, 2, 3])
        \<and> (ERROR, ''_handle_server_setup: received unknown setup param type'', [0x21]) \<in> set lg)"
proof -
  have h1: "(0xff000007 :: nat) < 2 ^ 62" by simp
  have p: "pull_uint_var [0x0A] = Inr (10, [])" by (simp add: be_value_def)
  have h2: "well_formed_params registry [(2, [0x0A]), (0x21, [1, 2, 3])]"
    by (simp add: well_formed_params_def registry_def starts_with_uint_var_def p)
  have h3: "(0x21, [1, 2, 3]) \<in> set [(2, [0x0A]), (0x21, [1, 2, 3 :: byte])]" by simp
  have h4: "0x21 \<noteq> MAX_SUBSCRIBER_ID registry" by (simp add: registry_def)
  have h5: "0x21 \<noteq> CLIENT_ROLE registry" by (simp add: registry_def)
  have h6: "0x21 \<noteq> ENDPOINT_PATH registry" by (simp add: registry_def)
  have w: "ServerSetup_wire 0xff000007 [(2, [0x0A]), (0x21, [1, 2, 3])]
       = [0xC0, 0, 0, 0, 0xFF, 0, 0, 7, 2, 2, 1, 0x0A, 0x21, 3, 1, 2, 3]"
    by (simp add: ServerSetup_wire_def uint_var_ff000007 uint_var_small)
  have e: "\<exists>m lg. ServerSetup_deserialize registry
                 [0xC0, 0, 0, 0, 0xFF, 0, 0, 7, 2, 2, 1, 0x0A, 0x21, 3, 1, 2, 3] = Inr (m, lg)
        \<and> map_of (ServerSetup.parameters m) 0x21 = Some (PBytes [1, 2, 3])
        \<and> (ERROR, ''_handle_server_setup: received unknown setup param type'', [0x21]) \<in> set lg"
    using ServerSetup_deserialize_keeps_unknown_param [OF h1 h2 h3 h4 h5 h6]
    unfolding w by blast
  show ?thesis
    using h1 h2 h3 h4 h5 h6 w e by blast
qed

lemma ClientSetup_pull_params_pos:
  "0 < n \<Longrightarrow> ClientSetup_pull_params c n vs lg buf =
     (case pull_param c [] lg buf of Inl e \<Rightarrow> Inl e
      | Inr (ps, lg', buf') \<Rightarrow> Inr (Some (ClientSetup_new c None vs ps), lg'))"
  by (cases n) simp_all

text \<open>
  Claim C8. Every well-formed setup payload that holds a parameter with an unknown key
  should deserialize to a message that has the raw bytes under that key, the key having
  been logged. \<open>ServerSetup.deserialize\<close> does so (the two lemmas above).
  \<open>ClientSetup.deserialize\<close> does not: on the payload of one version and the two
  parameters \<open>CLIENT_ROLE\<close> (key 0, value \<open>03\<close>) and key \<open>0x21\<close> (value \<open>09\<close>) it
  returns from inside the first iteration of the loop, so the message holds key 0 alone,
  key \<open>0x21\<close> is not in its parameter map and \<open>logger.error\<close> has not been called.
\<close>

theorem ClientSetup_deserialize_drops_unknown_param:
  "ClientSetup_deserialize registry [1, 1, 2, 0, 1, 3, 0x21, 1, 9]
     = Inr (Some \<lparr>type = Some 0x40, versions = [1], parameters = [(0, PBytes [3])]\<rparr>,
            [(INFO, ''CLIENT_SETUP'', [1, 2]), (DEBUG, ''CLIENT_ROLE'', [0, 1])])
   \<and> map_of [(0 :: nat, PBytes [3])] 0x21 = None
   \<and> (ERROR, ''_handle_server_setup: received unknown setup param type'', [0x21])
       \<notin> set [(INFO, ''CLIENT_SETUP'', [1, 2]), (DEBUG, ''CLIENT_ROLE'', [0, 1])]"
  by (simp add: ClientSetup_deserialize_def ClientSetup_pull_params_pos be_value_def
      ClientSetup_new_def ClientSetup_post_init_def pull_param_def pull_bytes_def registry_def
      unknown_param_log_def param_name_def)

subsection \<open>The client protocol\<close>

text \<open>
  Claim C3. For every \<open>ServerSetup\<close> message handed to the handler while
  \<open>_moqt_session\<close> is set, the handler calls \<open>close\<close> with \<open>PROTOCOL_VIOLATION\<close> and
  the reason string, raises the error to its caller, and does not call
  \<open>_moqt_session.set()\<close> again: the calls it makes are exactly two log calls and the
  \<open>close\<close>.
\<close>

theorem handle_server_setup_duplicate:
  assumes "moqt_session s"
  shows "fst (handle_server_setup c s (MsgServerSetup m)) = Inl (RuntimeError duplicate_error)
     \<and> effects (snd (handle_server_setup c s (MsgServerSetup m)))
         = effects s @ [LogCall INFO ''Received ServerSetup'', LogCall ERROR duplicate_error,
                        Close (PROTOCOL_VIOLATION c) duplicate_error]
     \<and> closed (snd (handle_server_setup c s (MsgServerSetup m)))
     \<and> SetEvent ''_moqt_session''
         \<notin> set (drop (length (effects s)) (effects (snd (handle_server_setup c s (MsgServerSetup m)))))
     \<and> moqt_session (snd (handle_server_setup c s (MsgServerSetup m)))"
  using assms by (simp add: handle_server_setup_def do_effect_def Let_def closed_def)

theorem handle_server_setup_duplicate_witness:
  "moqt_session \<lparr>wt_session = True, moqt_session = True, control_stream_id = Some 0, effects = []\<rparr>
   \<and> handle_server_setup registry
        \<lparr>wt_session = True, moqt_session = True, control_stream_id = Some 0, effects = []\<rparr>
        (MsgServerSetup (ServerSetup_new registry None 0xff000007 []))
      = (Inl (RuntimeError ''Received duplicate SERVER_SETUP message''),
         \<lparr>wt_session = True, moqt_session = True, control_stream_id = Some 0,
          effects = [LogCall INFO ''Received ServerSetup'',
                     LogCall ERROR ''Received duplicate SERVER_SETUP message'',
                     Close 3 ''Received duplicate SERVER_SETUP message'']\<rparr>)"
proof -
  let ?s = "\<lparr>wt_session = True, moqt_session = True, control_stream_id = Some 0, effects = []\<rparr>"
  let ?m = "MsgServerSetup (ServerSetup_new registry None 0xff000007 [])"
  have h: "moqt_session ?s" by simp
  have f: "fst (handle_server_setup registry ?s ?m) = Inl (RuntimeError duplicate_error)"
    and e: "effects (snd (handle_server_setup registry ?s ?m))
         = effects ?s @ [LogCall INFO ''Received ServerSetup'', LogCall ERROR duplicate_error,
                        Close (PROTOCOL_VIOLATION registry) duplicate_error]"
    using handle_server_setup_duplicate [OF h, of registry "ServerSetup_new registry None 0xff000007 []"]
    by blast+
  have rest: "wt_session (snd (handle_server_setup registry ?s ?m))"
    "moqt_session (snd (handle_server_setup registry ?s ?m))"
    "control_stream_id (snd (handle_server_setup registry ?s ?m)) = Some 0"
    by (simp_all add: handle_server_setup_def do_effect_def Let_def)
  have "snd (handle_server_setup registry ?s ?m)
      = \<lparr>wt_session = True, moqt_session = True, control_stream_id = Some 0,
          effects = [LogCall INFO ''Received ServerSetup'',
                     LogCall ERROR ''Received duplicate SERVER_SETUP message'',
                     Close 3 ''Received duplicate SERVER_SETUP message'']\<rparr>"
    using e rest by (cases "snd (handle_server_setup registry ?s ?m)")
      (simp add: duplicate_error_def registry_def)
  with f h show ?thesis
    by (simp add: prod_eq_iff duplicate_error_def)
qed

lemma ClientSetup_serialize_offer:
  "ClientSetup_serialize (ClientSetup_new registry None [0xff000007] [])
     = Inr [0x40, 0x40, 10, 1, 0xC0, 0, 0, 0, 0xFF, 0, 0, 7, 0]"
  by (simp add: ClientSetup_serialize_def ClientSetup_payload_def ClientSetup_new_def
      ClientSetup_post_init_def registry_def build_message_def push_uint_var_def
      uint_var_bytes_def push_bytes_def Buffer_new_def be_bytes_8 be_bytes_2 Let_def)

text \<open>
  Claim C5, as stated, fails on its last part: with neither signal ever arriving,
  \<open>initialize\<close> raises the timeout error, and \<open>close\<close> has not been called, so the
  session is not closed.
\<close>

theorem initialize_timeout_not_closed:
  "fst (initialize registry
          \<lparr>next_stream_id = 0, webtransport_stream_id = 2, wt_session_set_at = None,
           moqt_session_set_at = None\<rparr>
          \<lparr>wt_session = False, moqt_session = False, control_stream_id = None, effects = []\<rparr>)
     = Inl TimeoutError
   \<and> \<not> closed (snd (initialize registry
          \<lparr>next_stream_id = 0, webtransport_stream_id = 2, wt_session_set_at = None,
           moqt_session_set_at = None\<rparr>
          \<lparr>wt_session = False, moqt_session = False, control_stream_id = None, effects = []\<rparr>))"
  by (simp add: initialize_def wait_for_def do_effect_def closed_def Let_def)

text \<open>
  Claim C5, amended. If the transport-ready event is not set and never becomes set,
  \<open>initialize\<close> raises \<open>TimeoutError\<close> out of the wait bounded by 30, having sent only
  the session request; if the transport-ready wait returns, \<open>ClientSetup\<close> is sent and
  the handshake event never becomes set, it raises \<open>TimeoutError\<close> out of the wait
  bounded by 10. In both cases it logs the error and re-raises it, and calls \<open>close\<close>
  on no path: the session is closed afterwards only if it was before.
\<close>

theorem initialize_timeouts:
  "(\<not> wt_session s \<and> wt_session_set_at env = None \<longrightarrow>
      fst (initialize c env s) = Inl TimeoutError
      \<and> effects (snd (initialize c env s))
          = effects s @ [LogCall INFO ''Sending WebTransport session request'',
                         SendHeaders (next_stream_id env), WaitFor ''_wt_session'' 30,
                         LogCall ERROR ''WebTransport session establishment timeout'']
      \<and> closed (snd (initialize c env s)) = closed s)
   \<and> (wait_for (wt_session s) (wt_session_set_at env) 30
       \<and> ClientSetup_serialize (ClientSetup_new c None [0xff000007] []) = Inr bs
       \<and> \<not> moqt_session s \<and> moqt_session_set_at env = None \<longrightarrow>
      fst (initialize c env s) = Inl TimeoutError
      \<and> effects (snd (initialize c env s))
          = effects s @ [LogCall INFO ''Sending WebTransport session request'',
                         SendHeaders (next_stream_id env), WaitFor ''_wt_session'' 30,
                         CreateWebtransportStream (next_stream_id env),
                         LogCall INFO ''Created control stream'',
                         LogCall INFO ''Sending CLIENT_SETUP'',
                         SendControlMessage bs, WaitFor ''_moqt_session'' 10,
                         LogCall ERROR ''MOQT session setup timeout'']
      \<and> closed (snd (initialize c env s)) = closed s)"
  by (simp add: initialize_def wait_for_def do_effect_def closed_def Let_def)

theorem initialize_timeouts_witness:
  "(\<not> wt_session \<lparr>wt_session = False, moqt_session = False, control_stream_id = None, effects = []\<rparr>
    \<and> wt_session_set_at \<lparr>next_stream_id = 0, webtransport_stream_id = 2,
          wt_session_set_at = None, moqt_session_set_at = None\<rparr> = None
    \<and> initialize registry
         \<lparr>next_stream_id = 0, webtransport_stream_id = 2, wt_session_set_at = None,
          moqt_session_set_at = None\<rparr>
         \<lparr>wt_session = False, moqt_session = False, control_stream_id = None, effects = []\<rparr>
       = (Inl TimeoutError,
          \<lparr>wt_session = False, moqt_session = False, control_stream_id = None,
           effects = [LogCall INFO ''Sending WebTransport session request'', SendHeaders 0,
                      WaitFor ''_wt_session'' 30,
                      LogCall ERROR ''WebTransport session establishment timeout'']\<rparr>))
   \<and> (wait_for False (Some 5) 30
       \<and> ClientSetup_serialize (ClientSetup_new registry None [0xff000007] [])
           = Inr [0x40, 0x40, 10, 1, 0xC0, 0, 0, 0, 0xFF, 0, 0, 7, 0]
       \<and> fst (initialize registry
            \<lparr>next_stream_id = 0, webtransport_stream_id = 2, wt_session_set_at = Some 5,
             moqt_session_set_at = None\<rparr>
            \<lparr>wt_session = False, moqt_session = False, control_stream_id = None, effects = []\<rparr>)
          = Inl TimeoutError
       \<and> effects (snd (initialize registry
            \<lparr>next_stream_id = 0, webtransport_stream_id = 2, wt_session_set_at = Some 5,
             moqt_session_set_at = None\<rparr>
            \<lparr>wt_session = False, moqt_session = False, control_stream_id = None, effects = []\<rparr>))
          = [LogCall INFO ''Sending WebTransport session request'', SendHeaders 0,
             WaitFor ''_wt_session'' 30, CreateWebtransportStream 0,
             LogCall INFO ''Created control stream'', LogCall INFO ''Sending CLIENT_SETUP'',
             SendControlMessage [0x40, 0x40, 10, 1, 0xC0, 0, 0, 0, 0xFF, 0, 0, 7, 0],
             WaitFor ''_moqt_session'' 10, LogCall ERROR ''MOQT session setup timeout''])"
proof -
  let ?s = "\<lparr>wt_session = False, moqt_session = False, control_stream_id = None, effects = []\<rparr>"
  let ?e1 = "\<lparr>next_stream_id = 0, webtransport_stream_id = 2, wt_session_set_at = None,
          moqt_session_set_at = None\<rparr>"
  let ?e2 = "\<lparr>next_stream_id = 0, webtransport_stream_id = 2, wt_session_set_at = Some 5,
             moqt_session_set_at = None\<rparr>"
  let ?bs = "[0x40, 0x40, 10, 1, 0xC0, 0, 0, 0, 0xFF, 0, 0, 7, 0] :: byte list"
  have a: "\<not> wt_session ?s \<and> wt_session_set_at ?e1 = None" by simp
  have b: "wait_for (wt_session ?s) (wt_session_set_at ?e2) 30
       \<and> ClientSetup_serialize (ClientSetup_new registry None [0xff000007] []) = Inr ?bs
       \<and> \<not> moqt_session ?s \<and> moqt_session_set_at ?e2 = None"
    by (simp add: wait_for_def ClientSetup_serialize_offer)
  have r1: "fst (initialize registry ?e1 ?s) = Inl TimeoutError"
      "effects (snd (initialize registry ?e1 ?s))
          = effects ?s @ [LogCall INFO ''Sending WebTransport session request'',
                         SendHeaders (next_stream_id ?e1), WaitFor ''_wt_session'' 30,
                         LogCall ERROR ''WebTransport session establishment timeout'']"
    using initialize_timeouts [of ?s ?e1 registry ?bs] a by blast+
  have r2: "fst (initialize registry ?e2 ?s) = Inl TimeoutError"
      "effects (snd (initialize registry ?e2 ?s))
          = effects ?s @ [LogCall INFO ''Sending WebTransport session request'',
                         SendHeaders (next_stream_id ?e2), WaitFor ''_wt_session'' 30,
                         CreateWebtransportStream (next_stream_id ?e2),
                         LogCall INFO ''Created control stream'',
                         LogCall INFO ''Sending CLIENT_SETUP'',
                         SendControlMessage ?bs, WaitFor ''_moqt_session'' 10,
                         LogCall ERROR ''MOQT session setup timeout'']"
    using initialize_timeouts [of ?s ?e2 registry ?bs] b by blast+
  have fl: "wt_session (snd (initialize registry ?e1 ?s)) = False"
    "moqt_session (snd (initialize registry ?e1 ?s)) = False"
    "control_stream_id (snd (initialize registry ?e1 ?s)) = None"
    by (simp_all add: initialize_def wait_for_def do_effect_def Let_def)
  have s1: "snd (initialize registry ?e1 ?s)
      = \<lparr>wt_session = False, moqt_session = False, control_stream_id = None,
           effects = [LogCall INFO ''Sending WebTransport session request'', SendHeaders 0,
                      WaitFor ''_wt_session'' 30,
                      LogCall ERROR ''WebTransport session establishment timeout'']\<rparr>"
    using r1(2) fl by (cases "snd (initialize registry ?e1 ?s)") simp
  have w: "wait_for False (Some 5) 30" by (simp add: wait_for_def)
  show ?thesis
    using r1(1) s1 r2 w ClientSetup_serialize_offer
    by (simp add: prod_eq_iff)
qed

text \<open>
  Claim C6. Every call of \<open>subscribe\<close> with the filter type absolute-range and no end
  group fails before \<open>send_control_message\<close> is called: the only call made is the
  log line, the result is an error, and the error is the validation failure of the
  \<open>Subscribe\<close> constructor whenever the two names can be encoded.
\<close>

theorem subscribe_absolute_range_without_end_group:
  "effects (snd (subscribe c serialize s ns tn sid alias prio group_order ABSOLUTE_RANGE sg so None ps))
     = effects s @ [LogCall INFO ''Subscribing'']
   \<and> (\<exists>e. fst (subscribe c serialize s ns tn sid alias prio group_order ABSOLUTE_RANGE sg so None ps)
            = Inl e)
   \<and> (str_encode ns = Inr ns_bytes \<and> str_encode tn = Inr tn_bytes \<longrightarrow>
        fst (subscribe c serialize s ns tn sid alias prio group_order ABSOLUTE_RANGE sg so None ps)
          = Inl ProtocolViolation)"
  by (simp add: subscribe_def Subscribe_new_def bounds_consistent_def do_effect_def Let_def
      split: sum.splits)

theorem subscribe_absolute_range_without_end_group_witness:
  "str_encode [0x6C, 0x69, 0x76, 0x65] = Inr [0x6C, 0x69, 0x76, 0x65]
   \<and> str_encode [0x76] = Inr [0x76]
   \<and> fst (subscribe registry (\<lambda>m. Inr [])
        \<lparr>wt_session = True, moqt_session = True, control_stream_id = Some 2, effects = []\<rparr>
        [0x6C, 0x69, 0x76, 0x65] [0x76] 1 1 128 ASCENDING ABSOLUTE_RANGE (Some 0) (Some 0) None None)
      = Inl ProtocolViolation
   \<and> effects (snd (subscribe registry (\<lambda>m. Inr [])
        \<lparr>wt_session = True, moqt_session = True, control_stream_id = Some 2, effects = []\<rparr>
        [0x6C, 0x69, 0x76, 0x65] [0x76] 1 1 128 ASCENDING ABSOLUTE_RANGE (Some 0) (Some 0) None None))
      = [LogCall INFO ''Subscribing'']"
proof -
  have a: "str_encode [0x6C, 0x69, 0x76, 0x65] = Inr [0x6C, 0x69, 0x76, 0x65]"
    by (simp add: utf8_char_def)
  have b: "str_encode [0x76] = Inr [0x76]"
    by (simp add: utf8_char_def)
  show ?thesis
    using subscribe_absolute_range_without_end_group
      [of registry "\<lambda>m. Inr []"
          "\<lparr>wt_session = True, moqt_session = True, control_stream_id = Some 2, effects = []\<rparr>"
          "[0x6C, 0x69, 0x76, 0x65]" "[0x76]" 1 1 128 ASCENDING "Some 0" "Some 0" None
          "[0x6C, 0x69, 0x76, 0x65]" "[0x76]"]
      a b
    by simp
qed

text \<open>
  Claim C9. Whatever \<open>type\<close> is passed to the constructor, a constructed
  \<open>ServerSetup\<close>, \<open>ClientSetup\<close> or \<open>GoAway\<close> has its variant's constant as \<open>type\<close>;
  so has every message a \<open>deserialize\<close> returns. The other methods (\<open>serialize\<close>,
  \<open>client_setup\<close>) assign to no field: they take the message and return bytes.
\<close>

theorem type_is_variant_constant:
  "type (ServerSetup_new c ty1 version ps1) = Some (SERVER_SETUP c)
   \<and> type (ClientSetup_new c ty2 vs ps2) = Some (CLIENT_SETUP c)
   \<and> type (GoAway_new c ty3 uri) = Some (GOAWAY c)
   \<and> (ServerSetup_deserialize c buf1 = Inr (m1, lg1) \<longrightarrow> type m1 = Some (SERVER_SETUP c))
   \<and> (ClientSetup_deserialize c buf2 = Inr (Some m2, lg2) \<longrightarrow> type m2 = Some (CLIENT_SETUP c))
   \<and> (GoAway_deserialize c buf3 = Inr m3 \<longrightarrow> type m3 = Some (GOAWAY c))"
proof -
  have cs: "ClientSetup_pull_params c n vs lg buf = Inr (Some m, lg') \<Longrightarrow>
      type m = Some (CLIENT_SETUP c)" for n vs lg buf m lg'
    by (cases n) (auto simp: ClientSetup_new_def ClientSetup_post_init_def split: sum.splits)
  show ?thesis
    by (auto simp: ServerSetup_new_def ServerSetup_post_init_def ClientSetup_new_def
        ClientSetup_post_init_def GoAway_new_def GoAway_post_init_def
        ServerSetup_deserialize_def ClientSetup_deserialize_def GoAway_deserialize_def
        split: sum.splits dest: cs)
qed

theorem type_is_variant_constant_witness:
  "type (ServerSetup_new registry (Some 7) 1 []) = Some 0x41
   \<and> type (ClientSetup_new registry None [1] []) = Some 0x40
   \<and> type (GoAway_new registry (Some 0x41) []) = Some 0x10
   \<and> ServerSetup_deserialize registry [1, 0]
       = Inr (\<lparr>type = Some 0x41, selected_version = 1, parameters = []\<rparr>,
              [(INFO, ''SERVER_SETUP'', [1, 0])])
   \<and> ClientSetup_deserialize registry [1, 1, 1, 0, 1, 3]
       = Inr (Some \<lparr>type = Some 0x40, versions = [1], parameters = [(0, PBytes [3])]\<rparr>,
              [(INFO, ''CLIENT_SETUP'', [1, 1]), (DEBUG, ''CLIENT_ROLE'', [0, 1])])
   \<and> GoAway_deserialize registry [0] = Inr \<lparr>type = Some 0x10, new_session_uri = []\<rparr>"
proof -
  have s: "ServerSetup_deserialize registry [1, 0]
       = Inr (\<lparr>type = Some (SERVER_SETUP registry), selected_version = 1, parameters = []\<rparr>,
              [(INFO, ''SERVER_SETUP'', [1, 0])])"
    by (simp add: ServerSetup_deserialize_def be_value_def ServerSetup_new_def
        ServerSetup_post_init_def)
  have k: "ClientSetup_deserialize registry [1, 1, 1, 0, 1, 3]
       = Inr (Some \<lparr>type = Some (CLIENT_SETUP registry), versions = [1],
                     parameters = [(0, PBytes [3])]\<rparr>,
              [(INFO, ''CLIENT_SETUP'', [1, 1]), (DEBUG, ''CLIENT_ROLE'', [0, 1])])"
    by (simp add: ClientSetup_deserialize_def be_value_def ClientSetup_new_def
        ClientSetup_post_init_def pull_param_def pull_bytes_def registry_def
        unknown_param_log_def param_name_def)
  have g: "GoAway_deserialize registry [0]
       = Inr \<lparr>type = Some (GOAWAY registry), new_session_uri = []\<rparr>"
    by (simp add: GoAway_deserialize_def be_value_def pull_bytes_def GoAway_new_def
        GoAway_post_init_def)
  have v: "SERVER_SETUP registry = 0x41" "CLIENT_SETUP registry = 0x40" "GOAWAY registry = 0x10"
    by (simp_all add: registry_def)
  show ?thesis
    using type_is_variant_constant
      [of registry "Some 7" 1 "[]" None "[1]" "[]" "Some 0x41" "[]"
          "[1, 0]" "\<lparr>type = Some (SERVER_SETUP registry), selected_version = 1, parameters = []\<rparr>"
          "[(INFO, ''SERVER_SETUP'', [1, 0])]"
          "[1, 1, 1, 0, 1, 3]"
          "\<lparr>type = Some (CLIENT_SETUP registry), versions = [1], parameters = [(0, PBytes [3])]\<rparr>"
          "[(INFO, ''CLIENT_SETUP'', [1, 1]), (DEBUG, ''CLIENT_ROLE'', [0, 1])]"
          "[0]" "\<lparr>type = Some (GOAWAY registry), new_session_uri = []\<rparr>"]
      s k g
    by (simp add: v)
qed

subsection \<open>The frame around the payload\<close>

lemma str_encode_ascii:
  "a < 0x80 \<Longrightarrow> str_encode (replicate n a) = Inr (replicate n (of_nat a))"
  by (induction n) (simp_all add: utf8_char_def)




text \<open>
  Claim C4. Every \<open>serialize\<close> should produce the type, the payload length and then
  exactly that many payload bytes. \<open>GoAway.serialize\<close> on a URI of 64 letters \<open>a\<close>
  declares 65 payload bytes (bytes \<open>40 41\<close>) and writes 66: the length prefix of a URI
  of 64 bytes or more takes two bytes, and \<open>payload_size\<close> counts one.
  \<open>ServerSetup.serialize\<close> and \<open>ClientSetup.serialize\<close> take the length from the
  payload they have built (\<open>build_message_frame\<close> above).
\<close>

theorem GoAway_serialize_wrong_payload_length:
  "GoAway_serialize (GoAway_new registry None (replicate 64 0x61))
     = Inr ([0x10] @ [0x40, 0x41] @ ([0x40, 0x40] @ replicate 64 0x61))
   \<and> pull_uint_var ([0x40, 0x41] @ ([0x40, 0x40] @ replicate 64 0x61))
       = Inr (65, [0x40, 0x40] @ replicate 64 0x61)
   \<and> length ([0x40, 0x40] @ replicate 64 (0x61 :: byte)) = 66"
proof -
  have e: "str_encode (replicate 64 0x61) = Inr (replicate 64 0x61)"
    using str_encode_ascii [of "0x61" 64] by simp
  have s: "GoAway_serialize (GoAway_new registry None (replicate 64 0x61))
     = Inr ([0x10] @ [0x40, 0x41] @ ([0x40, 0x40] @ replicate 64 0x61))"
    by (simp add: GoAway_serialize_def GoAway_new_def GoAway_post_init_def registry_def e
        push_uint_var_def uint_var_bytes_def push_bytes_def Buffer_new_def be_bytes_2 Let_def)
  have p: "pull_uint_var ([0x40, 0x41] @ ([0x40, 0x40] @ replicate 64 0x61))
       = Inr (65, [0x40, 0x40] @ replicate 64 0x61)"
    by (simp add: be_value_def)
  show ?thesis using s p by simp
qed

subsection \<open>UTF-8\<close>











subsection \<open>Round trips\<close>








end
